theory Spec2Isabelle
  imports Complex_Main "HOL-Library.Log_Nat" "HOL-Library.List_Lexorder"
begin

section \<open>Text, cells and the cleaning step\<close>

text \<open>
  A Python string is a sequence of Unicode code points, and two strings compare by their
  code points from left to right. A text is therefore a list of code points, with the
  lexicographic order of lists.
\<close>

type_synonym texto = "nat list"

definition tx :: "string \<Rightarrow> texto" where
  "tx s = map of_char s"

text \<open>
  A spreadsheet cell of a text column is either blank (pandas reads it as NaN) or holds
  text. A numeric cell of such a column is rendered by \<^verbatim>\<open>astype(str)\<close> before any test
  is made on it, so it is represented here by its rendering.
\<close>

datatype cell = NaN | Str texto

text \<open>\<^verbatim>\<open>Series.astype(str)\<close>: a blank cell becomes the text \<^verbatim>\<open>nan\<close>.\<close>

fun astype_str :: "cell \<Rightarrow> cell" where
  "astype_str NaN = Str (tx ''nan'')"
| "astype_str (Str s) = Str s"

text \<open>
  The code points that \<^verbatim>\<open>str.strip()\<close> removes: the white space of Unicode, which is
  9 to 13, 28 to 32, 133, 160, 5760, 8192 to 8202, 8232, 8233, 8239, 8287 and 12288.
\<close>

definition es_espacio :: "nat \<Rightarrow> bool" where
  "es_espacio c =
     ((9 \<le> c \<and> c \<le> 13) \<or> (28 \<le> c \<and> c \<le> 32) \<or> c = 133 \<or> c = 160 \<or> c = 5760
      \<or> (8192 \<le> c \<and> c \<le> 8202) \<or> c = 8232 \<or> c = 8233 \<or> c = 8239 \<or> c = 8287
      \<or> c = 12288)"

definition strip :: "texto \<Rightarrow> texto" where
  "strip s = rev (dropWhile es_espacio (rev (dropWhile es_espacio s)))"

text \<open>\<^verbatim>\<open>Series.str.strip()\<close>: a missing value stays missing.\<close>

fun str_strip :: "cell \<Rightarrow> cell" where
  "str_strip NaN = NaN"
| "str_strip (Str s) = Str (strip s)"

text \<open>\<^verbatim>\<open>DataFrame.dropna()\<close> on a frame of two columns.\<close>

definition dropna :: "(cell \<times> cell) list \<Rightarrow> (cell \<times> cell) list" where
  "dropna df = filter (\<lambda>(a, b). a \<noteq> NaN \<and> b \<noteq> NaN) df"

text \<open>
  Lines 47 to 52 of the region/genre script: both columns are rendered and stripped,
  rows with a missing value are dropped, then the rows whose REGION is empty or
  \<^verbatim>\<open>nan\<close> and the rows whose GENRE is empty or \<^verbatim>\<open>nan\<close> are removed.
\<close>

definition limpiar_region_genero :: "(cell \<times> cell) list \<Rightarrow> (cell \<times> cell) list" where
  "limpiar_region_genero df =
     (let df1 = map (\<lambda>(r, g). (str_strip (astype_str r), g)) df;
          df2 = map (\<lambda>(r, g). (r, str_strip (astype_str g))) df1;
          df3 = dropna df2;
          df4 = filter (\<lambda>(r, g). r \<noteq> Str [] \<and> r \<noteq> Str (tx ''nan'')) df3
      in filter (\<lambda>(r, g). g \<noteq> Str [] \<and> g \<noteq> Str (tx ''nan'')) df4)"

section \<open>The contingency table\<close>

text \<open>
  \<^verbatim>\<open>pd.crosstab(a, b)\<close>: the rows with a missing key are left out; the index holds the
  distinct values of the first column in ascending order, the columns those of the
  second, and each entry counts the rows holding that pair.
\<close>

fun pares :: "(cell \<times> cell) list \<Rightarrow> (texto \<times> texto) list" where
  "pares [] = []"
| "pares ((Str r, Str g) # df) = (r, g) # pares df"
| "pares (_ # df) = pares df"

record tabla =
  indice :: "texto list"
  columnas :: "texto list"
  valores :: "nat list list"

definition crosstab :: "(cell \<times> cell) list \<Rightarrow> tabla" where
  "crosstab df =
     (let ps = pares df;
          idx = sort (remdups (map fst ps));
          cols = sort (remdups (map snd ps))
      in \<lparr>indice = idx, columnas = cols,
          valores = map (\<lambda>r. map (\<lambda>g. count_list ps (r, g)) cols) idx\<rparr>)"

section \<open>Binary floating point\<close>

text \<open>
  The scripts compute percentages and indices in the binary64 format. A binary64 number
  is a rational here, and every operation of the scripts is the exact operation followed
  by \<open>b64\<close>, the rounding to the nearest number with a significand of 53 bits, a tie going
  to the even significand. The range of the exponent is not bounded: the counts of a
  sheet and the values derived from them stay far inside the range of binary64.
\<close>

text \<open>Rounding to the nearest integer, a tie going to the even neighbour.\<close>

definition rint :: "rat \<Rightarrow> int" where
  "rint x =
     (let f = \<lfloor>x\<rfloor>; d = x - of_int f
      in if d < 1 / 2 then f else if 1 / 2 < d then f + 1 else if even f then f else f + 1)"

definition pow2 :: "int \<Rightarrow> rat" where
  "pow2 e = (if 0 \<le> e then 2 ^ nat e else 1 / 2 ^ nat (- e))"

text \<open>The exponent of a positive rational: \<open>pow2 (ilog2 x) \<le> x < pow2 (ilog2 x + 1)\<close>.\<close>

definition ilog2 :: "rat \<Rightarrow> int" where
  "ilog2 x =
     (let (p, q) = quotient_of x; d = bitlen p - bitlen q
      in if pow2 d \<le> x then d else d - 1)"

definition b64 :: "rat \<Rightarrow> rat" where
  "b64 x = (if x = 0 then 0
            else (let e = ilog2 \<bar>x\<bar> - 52 in of_int (rint (x / pow2 e)) * pow2 e))"

text \<open>A count as a binary64 number, and the three operations the scripts use.\<close>

definition de_entero :: "nat \<Rightarrow> rat" where
  "de_entero n = b64 (of_nat n)"

definition dividir :: "rat \<Rightarrow> rat \<Rightarrow> rat" where
  "dividir a b = b64 (a / b)"

definition multiplicar :: "rat \<Rightarrow> rat \<Rightarrow> rat" where
  "multiplicar a b = b64 (a * b)"

definition sumar :: "rat \<Rightarrow> rat \<Rightarrow> rat" where
  "sumar a b = b64 (a + b)"

text \<open>
  \<^verbatim>\<open>round(2)\<close> of NumPy: the value is multiplied by 100, rounded to an integer and divided
  by 100, each step in binary64.
\<close>

definition round2 :: "rat \<Rightarrow> rat" where
  "round2 x = dividir (of_int (rint (multiplicar x 100))) 100"

section \<open>Percentages, concentration index and diversity tier\<close>

text \<open>
  Lines 71 and 72: every count of a row is divided by the total of the row, multiplied by
  100 and rounded to two decimals. The quotient \<^verbatim>\<open>0/0\<close> of a row without records is
  undefined (NaN), which is \<open>None\<close> here.
\<close>

definition porcentaje :: "nat \<Rightarrow> nat \<Rightarrow> rat option" where
  "porcentaje tot c =
     (if tot = 0 then None
      else Some (round2 (multiplicar (dividir (de_entero c) (de_entero tot)) 100)))"

definition porcentajes_fila :: "nat list \<Rightarrow> rat option list" where
  "porcentajes_fila fila = map (porcentaje (sum_list fila)) fila"

definition tabla_porcentajes :: "tabla \<Rightarrow> rat option list list" where
  "tabla_porcentajes t = map porcentajes_fila (valores t)"

text \<open>
  Lines 108 and 109, \<^verbatim>\<open>sum([p ** 2 for p in porcentajes])\<close>: the squares are added from
  left to right, starting from 0; an undefined percentage makes the sum undefined.
\<close>

fun suma :: "rat option \<Rightarrow> rat option list \<Rightarrow> rat option" where
  "suma acc [] = acc"
| "suma acc (x # xs) =
     suma (case acc of None \<Rightarrow> None
           | Some a \<Rightarrow> (case x of None \<Rightarrow> None | Some b \<Rightarrow> Some (sumar a b))) xs"

definition calcular_hhi :: "rat option list \<Rightarrow> rat option" where
  "calcular_hhi porcentajes = suma (Some 0) (map (map_option (\<lambda>p. multiplicar p p)) porcentajes)"

definition indice_diversidad :: "tabla \<Rightarrow> rat option list" where
  "indice_diversidad t = map calcular_hhi (tabla_porcentajes t)"

text \<open>
  Lines 116 to 118, \<^verbatim>\<open>pd.cut\<close> with the bins 0, 1500, 2500, 10000: the intervals are open
  on the left and closed on the right, and a value in none of them has no label.
\<close>

datatype nivel = Alta_Diversidad | Media_Diversidad | Baja_Diversidad

definition nivel_diversidad :: "rat option \<Rightarrow> nivel option" where
  "nivel_diversidad i =
     (case i of
        None \<Rightarrow> None
      | Some x \<Rightarrow>
          if 0 < x \<and> x \<le> 1500 then Some Alta_Diversidad
          else if 1500 < x \<and> x \<le> 2500 then Some Media_Diversidad
          else if 2500 < x \<and> x \<le> 10000 then Some Baja_Diversidad
          else None)"

text \<open>The position of a label in the ordered categories of \<^verbatim>\<open>pd.cut\<close>.\<close>

fun severidad :: "nivel \<Rightarrow> nat" where
  "severidad Alta_Diversidad = 0"
| "severidad Media_Diversidad = 1"
| "severidad Baja_Diversidad = 2"

section \<open>The ranking of genres per region\<close>

text \<open>
  \<^verbatim>\<open>Series.nlargest(n)\<close> with the default \<^verbatim>\<open>keep='first'\<close>: the \<open>n\<close> largest values in
  descending order, equal values in the order they have in the series.
\<close>

definition nlargest :: "nat \<Rightarrow> (texto \<times> nat) list \<Rightarrow> (texto \<times> nat) list" where
  "nlargest n serie = take n (sort_key (\<lambda>(g, c). - int c) serie)"

record fila_top =
  REGION :: texto
  RANKING :: nat
  GENERO :: texto
  VISUALIZACIONES :: nat
  PORCENTAJE :: "rat option"
  TOTAL_REGION :: nat

text \<open>Lines 77 to 93: the three largest genres of every region, ranked from 1.\<close>

definition top_region :: "texto list \<Rightarrow> texto \<times> nat list \<Rightarrow> fila_top list" where
  "top_region cols rf =
     (let generos_region = zip cols (snd rf);
          total_region = sum_list (snd rf);
          top3 = nlargest 3 generos_region
      in map (\<lambda>(i, (genero, c)).
               \<lparr>REGION = fst rf, RANKING = i, GENERO = genero, VISUALIZACIONES = c,
                PORCENTAJE = porcentaje total_region c, TOTAL_REGION = total_region\<rparr>)
             (zip [1..<Suc (length top3)] top3))"

definition top_generos_por_region :: "tabla \<Rightarrow> fila_top list" where
  "top_generos_por_region t = concat (map (top_region (columnas t)) (zip (indice t) (valores t)))"

section \<open>The analyses as functions of the loaded sheet\<close>

text \<open>
  Each script reads one sheet into a frame and then works on the frame alone. The frame
  is the input here: a list of named columns, all of the same length. Finding the file
  and the sheet happens before and is left out. What a run leaves behind is the text
  on the console, the state of the output file and the value it returned (if any). Of
  the console only the error reports are kept apart; the banners and figures of a
  report are one \<open>Informe\<close>.
\<close>

type_synonym dataframe = "(texto \<times> cell list) list"

text \<open>
  The exceptions that reach the handler at the end of a function: the division by zero
  of Python, and the errors that pandas raises (an unknown column, a sheet too large).
\<close>

datatype py_error = ZeroDivisionError | Error_pandas

datatype mensaje =
    Columna_no_encontrada texto
  | Columnas_disponibles "texto list"
  | Error_inesperado py_error
  | Informe

text \<open>
  The output file: never opened, opened and left by an exception before the writing was
  complete, or written with the given content.
\<close>

datatype 'r escritura = Sin_abrir | Interrumpida | Escrito 'r

record 'r salida =
  consola :: "mensaje list"
  archivo :: "'r escritura"
  retorno :: "'r option"

text \<open>
  \<^verbatim>\<open>to_excel\<close> refuses a frame of more than 1048576 rows or more than 16384 columns.
\<close>

definition hoja_cabe :: "nat \<Rightarrow> nat \<Rightarrow> bool" where
  "hoja_cabe filas cols = (filas \<le> 1048576 \<and> cols \<le> 16384)"

text \<open>
  The loop over \<^verbatim>\<open>columnas_requeridas\<close>: it stops at the first required column that the
  frame lacks.
\<close>

fun columna_faltante :: "texto list \<Rightarrow> texto list \<Rightarrow> texto option" where
  "columna_faltante [] cols = None"
| "columna_faltante (c # cs) cols =
     (if c \<in> set cols then columna_faltante cs cols else Some c)"

text \<open>\<^verbatim>\<open>df[c]\<close> for a column that the check has found.\<close>

definition columna :: "dataframe \<Rightarrow> texto \<Rightarrow> cell list" where
  "columna df c = (case map_of df c of Some v \<Rightarrow> v | None \<Rightarrow> [])"

subsection \<open>Region and genre\<close>

record informe_region =
  tabla_contingencia :: tabla
  porcentajes :: "rat option list list"
  top_generos :: "fila_top list"
  indices :: "rat option list"
  niveles :: "nivel option list"

text \<open>Lines 47 to 118: the tables computed from the two columns.\<close>

definition calcular_region :: "(cell \<times> cell) list \<Rightarrow> informe_region" where
  "calcular_region df =
     (let df_clean = limpiar_region_genero df;
          t = crosstab df_clean
      in \<lparr>tabla_contingencia = t, porcentajes = tabla_porcentajes t,
          top_generos = top_generos_por_region t,
          indices = indice_diversidad t,
          niveles = map nivel_diversidad (indice_diversidad t)\<rparr>)"

text \<open>
  \<^verbatim>\<open>analizar_relacion_region_genero\<close>. With no cleaned record the frame \<^verbatim>\<open>df_top\<close> is
  built from an empty list and has no column \<^verbatim>\<open>RANKING\<close>, so line 123 raises before the
  output file is opened. Otherwise the sheets are written one after the other (lines 138
  to 181): the two tables, the ranking with its six columns, the statistics of the
  regions and the summary; a sheet that is too large raises. An exception ends the run
  in the handler of line 252.
\<close>

definition analizar_relacion_region_genero :: "dataframe \<Rightarrow> informe_region salida" where
  "analizar_relacion_region_genero df =
     (case columna_faltante [tx ''REGION'', tx ''GENRE''] (map fst df) of
        Some c \<Rightarrow>
          \<lparr>consola = [Columna_no_encontrada c, Columnas_disponibles (map fst df)],
           archivo = Sin_abrir, retorno = None\<rparr>
      | None \<Rightarrow>
          (let r = calcular_region (zip (columna df (tx ''REGION'')) (columna df (tx ''GENRE'')));
               t = tabla_contingencia r
           in if top_generos r = []
              then \<lparr>consola = [Informe, Error_inesperado Error_pandas],
                    archivo = Sin_abrir, retorno = None\<rparr>
              else if hoja_cabe (length (indice t)) (length (columnas t))
                      \<and> hoja_cabe (length (top_generos r)) 6
              then \<lparr>consola = [Informe], archivo = Escrito r, retorno = Some r\<rparr>
              else \<lparr>consola = [Informe, Error_inesperado Error_pandas],
                    archivo = Interrumpida, retorno = None\<rparr>))"

subsection \<open>Devices per customer\<close>

text \<open>
  Lines 42 to 45 of the device script: both columns are rendered and stripped and the
  rows with a missing value are dropped. No row is removed for an empty text.
\<close>

definition limpiar_dispositivos :: "(cell \<times> cell) list \<Rightarrow> (cell \<times> cell) list" where
  "limpiar_dispositivos df =
     (let df1 = map (\<lambda>(c, d). (str_strip (astype_str c), d)) df;
          df2 = map (\<lambda>(c, d). (c, str_strip (astype_str d))) df1
      in dropna df2)"

text \<open>
  A \<^verbatim>\<open>defaultdict\<close> keeps its keys in the order of their first use: an association list.
  \<open>actualizar f d k\<close> is \<^verbatim>\<open>m[k] = f(m[k])\<close>, the entry starting from the default \<open>d\<close>.
\<close>

fun actualizar :: "('v \<Rightarrow> 'v) \<Rightarrow> 'v \<Rightarrow> texto \<Rightarrow> (texto \<times> 'v) list \<Rightarrow> (texto \<times> 'v) list" where
  "actualizar f d k [] = [(k, f d)]"
| "actualizar f d k ((k', v) # kvs) =
     (if k' = k then (k', f v) # kvs else (k', v) # actualizar f d k kvs)"

definition buscar :: "(texto \<times> 'v list) list \<Rightarrow> texto \<Rightarrow> 'v list" where
  "buscar m k = (case map_of m k of Some v \<Rightarrow> v | None \<Rightarrow> [])"

text \<open>
  Lines 52 to 57, the loop over the cleaned rows. The set of devices of a customer is a
  list without repetitions (\<^verbatim>\<open>add\<close> is \<open>List.insert\<close>); the list of records grows at its end.
\<close>

fun procesar ::
  "(texto \<times> texto) list \<Rightarrow> (texto \<times> texto list) list \<times> (texto \<times> texto list) list
     \<Rightarrow> (texto \<times> texto list) list \<times> (texto \<times> texto list) list" where
  "procesar [] st = st"
| "procesar ((customer_id, device) # filas) (clientes_dispositivos, clientes_registros) =
     procesar filas
       (actualizar (List.insert device) [] customer_id clientes_dispositivos,
        actualizar (\<lambda>l. l @ [device]) [] customer_id clientes_registros)"

text \<open>\<^verbatim>\<open>', '.join(xs)\<close>.\<close>

fun unir :: "texto list \<Rightarrow> texto" where
  "unir [] = []"
| "unir [x] = x"
| "unir (x # y # ys) = x @ tx '', '' @ unir (y # ys)"

text \<open>The two answers of the column on several devices; the first has the code point 237.\<close>

definition Si :: texto where
  "Si = [83, 237]"

definition No :: texto where
  "No = tx ''No''"

record fila_cliente =
  CUSTOMER_ID :: texto
  CANTIDAD_DISPOSITIVOS :: nat
  DISPOSITIVOS_UTILIZADOS :: texto
  USA_MULTIPLES_DISPOSITIVOS :: texto
  TOTAL_VISUALIZACIONES :: nat
  DISP_UNICOS_TOTAL :: "nat \<times> nat"

text \<open>Lines 62 to 74: one row per customer.\<close>

definition analisis_data ::
  "(texto \<times> texto list) list \<times> (texto \<times> texto list) list \<Rightarrow> fila_cliente list" where
  "analisis_data st =
     map (\<lambda>(customer_id, dispositivos).
            (let cantidad_dispositivos = length dispositivos;
                 total_registros = length (buscar (snd st) customer_id)
             in \<lparr>CUSTOMER_ID = customer_id,
                 CANTIDAD_DISPOSITIVOS = cantidad_dispositivos,
                 DISPOSITIVOS_UTILIZADOS = unir (sort dispositivos),
                 USA_MULTIPLES_DISPOSITIVOS = (if 1 < cantidad_dispositivos then Si else No),
                 TOTAL_VISUALIZACIONES = total_registros,
                 DISP_UNICOS_TOTAL = (cantidad_dispositivos, total_registros)\<rparr>))
         (fst st)"

text \<open>
  The rows of \<^verbatim>\<open>df_clean\<close> in the order in which \<^verbatim>\<open>iterrows\<close> yields them.
\<close>

definition registros_dispositivos :: "dataframe \<Rightarrow> (texto \<times> texto) list" where
  "registros_dispositivos df =
     pares (limpiar_dispositivos
              (zip (columna df (tx ''CUSTOMER_ID'')) (columna df (tx ''DEVICE''))))"

text \<open>
  \<^verbatim>\<open>analizar_dispositivos_por_cliente\<close>. The rows are sorted by the number of devices, the
  largest first (pandas does not fix the order of rows with the same number; they keep
  their order here). With no row the frame has no column to sort by and line 80 raises.
  The sheets written are the rows, a summary, the rows with several devices and one row
  per device.
\<close>

definition analizar_dispositivos_por_cliente :: "dataframe \<Rightarrow> fila_cliente list salida" where
  "analizar_dispositivos_por_cliente df =
     (case columna_faltante [tx ''CUSTOMER_ID'', tx ''DEVICE''] (map fst df) of
        Some c \<Rightarrow>
          \<lparr>consola = [Columna_no_encontrada c, Columnas_disponibles (map fst df)],
           archivo = Sin_abrir, retorno = None\<rparr>
      | None \<Rightarrow>
          (let st = procesar (registros_dispositivos df) ([], []);
               filas = analisis_data st
           in if filas = []
              then \<lparr>consola = [Error_inesperado Error_pandas], archivo = Sin_abrir, retorno = None\<rparr>
              else (let df_analisis = sort_key (\<lambda>f. - int (CANTIDAD_DISPOSITIVOS f)) filas;
                        todos_dispositivos = concat (map snd (fst st))
                    in if hoja_cabe (length df_analisis) 6
                          \<and> hoja_cabe (length (remdups todos_dispositivos)) 3
                       then \<lparr>consola = [Informe], archivo = Escrito df_analisis,
                             retorno = Some df_analisis\<rparr>
                       else \<lparr>consola = [Informe, Error_inesperado Error_pandas],
                             archivo = Interrumpida, retorno = None\<rparr>)))"

subsection \<open>Customer identifiers\<close>

text \<open>\<^verbatim>\<open>df['CUSTOMER_ID'].dropna().astype(str)\<close>.\<close>

fun customer_ids :: "cell list \<Rightarrow> texto list" where
  "customer_ids [] = []"
| "customer_ids (NaN # cs) = customer_ids cs"
| "customer_ids (Str s # cs) = s # customer_ids cs"

text \<open>
  \<^verbatim>\<open>Counter(xs)\<close>: the distinct values in the order of their first occurrence, each with
  the number of its occurrences.
\<close>

definition Counter :: "texto list \<Rightarrow> (texto \<times> nat) list" where
  "Counter xs = map (\<lambda>x. (x, count_list xs x)) (rev (remdups (rev xs)))"

text \<open>Python's \<^verbatim>\<open>a / b\<close> on integers.\<close>

definition py_div :: "nat \<Rightarrow> nat \<Rightarrow> py_error + rat" where
  "py_div a b = (if b = 0 then Inl ZeroDivisionError else Inr (dividir (de_entero a) (de_entero b)))"

record fila_frecuencia =
  ID :: texto
  FRECUENCIA :: nat
  ES_DUPLICADO :: bool

text \<open>
  \<^verbatim>\<open>analizar_customer_ids\<close>: the counts are printed, then the share of duplicated
  identifiers is computed (line 85), then the table is written. The function returns
  nothing.
\<close>

definition analizar_customer_ids :: "dataframe \<Rightarrow> fila_frecuencia list salida" where
  "analizar_customer_ids df =
     (if tx ''CUSTOMER_ID'' \<notin> set (map fst df)
      then \<lparr>consola = [Columna_no_encontrada (tx ''CUSTOMER_ID''), Columnas_disponibles (map fst df)],
            archivo = Sin_abrir, retorno = None\<rparr>
      else
        (let ids = customer_ids (columna df (tx ''CUSTOMER_ID''));
             total_unicos = length (remdups ids);
             contador = Counter ids;
             duplicados = filter (\<lambda>(k, v). 1 < v) contador
         in case py_div (length duplicados) total_unicos of
              Inl e \<Rightarrow> \<lparr>consola = [Informe, Error_inesperado e], archivo = Sin_abrir,
                        retorno = None\<rparr>
            | Inr _ \<Rightarrow>
                \<lparr>consola = [Informe],
                 archivo = Escrito (map (\<lambda>(k, v). \<lparr>ID = k, FRECUENCIA = v, ES_DUPLICADO = (1 < v)\<rparr>)
                                      contador),
                 retorno = None\<rparr>))"

section \<open>Evaluating text\<close>

lemma tx_simps: "tx [] = []" "tx (c # cs) = of_char c # tx cs"
  by (simp_all add: tx_def)

section \<open>Properties of cleaning\<close>

lemma limpiar_todo_texto:
  "(a, b) \<in> set (limpiar_region_genero df) \<Longrightarrow> a \<noteq> NaN \<and> b \<noteq> NaN"
  by (auto simp: limpiar_region_genero_def dropna_def Let_def)

lemma pares_length_texto:
  "\<forall>p\<in>set df. fst p \<noteq> NaN \<and> snd p \<noteq> NaN \<Longrightarrow> length (pares df) = length df"
proof (induction df)
  case Nil
  then show ?case by simp
next
  case (Cons p df)
  obtain a b where p: "p = (a, b)" by (cases p)
  from Cons.prems p obtain r g where "a = Str r" "b = Str g"
    by (cases a; cases b) auto
  with Cons p show ?case by simp
qed

section \<open>Properties of the contingency table\<close>

lemma suma_indicador:
  fixes G :: "'b list"
  assumes "distinct G"
  shows "(\<Sum>g\<leftarrow>G. if b = g then (1::nat) else 0) = (if b \<in> set G then 1 else 0)"
  using assms by (induction G) auto

lemma suma_indicador2:
  fixes R :: "'a list" and G :: "'b list"
  assumes "distinct R" "distinct G"
  shows "(\<Sum>r\<leftarrow>R. \<Sum>g\<leftarrow>G. if a = r \<and> b = g then (1::nat) else 0)
           = (if a \<in> set R \<and> b \<in> set G then 1 else 0)"
  using assms(1)
proof (induction R)
  case Nil
  then show ?case by simp
next
  case (Cons r R)
  have "(\<Sum>g\<leftarrow>G. if a = r \<and> b = g then (1::nat) else 0)
          = (if a = r then (\<Sum>g\<leftarrow>G. if b = g then 1 else 0) else 0)"
    by (induction G) auto
  with Cons assms(2) show ?case
    by (auto simp: suma_indicador)
qed

lemma suma_conteos:
  fixes ps :: "('a \<times> 'b) list"
  assumes "distinct R" "distinct G" "fst ` set ps \<subseteq> set R" "snd ` set ps \<subseteq> set G"
  shows "(\<Sum>r\<leftarrow>R. \<Sum>g\<leftarrow>G. count_list ps (r, g)) = length ps"
  using assms(3,4)
proof (induction ps)
  case Nil
  then show ?case by simp
next
  case (Cons p ps)
  obtain a b where p: "p = (a, b)" by (cases p)
  have split: "\<And>r g. count_list (p # ps) (r, g)
                  = (if a = r \<and> b = g then 1 else 0) + count_list ps (r, g)"
    by (simp add: p)
  have "(\<Sum>r\<leftarrow>R. \<Sum>g\<leftarrow>G. count_list (p # ps) (r, g))
          = (\<Sum>r\<leftarrow>R. \<Sum>g\<leftarrow>G. if a = r \<and> b = g then (1::nat) else 0)
            + (\<Sum>r\<leftarrow>R. \<Sum>g\<leftarrow>G. count_list ps (r, g))"
    unfolding split by (simp add: sum_list_addf)
  also have "\<dots> = 1 + length ps"
    using Cons assms(1,2) by (simp add: suma_indicador2 p)
  finally show ?case by simp
qed

text \<open>
  C1. The entries of the contingency table built from the cleaned records of the
  region/genre analysis add up to the number of cleaned records.
\<close>

theorem crosstab_suma_total:
  "sum_list (map sum_list (valores (crosstab (limpiar_region_genero df))))
     = length (limpiar_region_genero df)"
proof -
  let ?c = "limpiar_region_genero df"
  let ?ps = "pares ?c"
  have len: "length ?ps = length ?c"
    by (rule pares_length_texto) (auto dest: limpiar_todo_texto)
  have "sum_list (map sum_list (valores (crosstab ?c)))
          = (\<Sum>r\<leftarrow>sort (remdups (map fst ?ps)). \<Sum>g\<leftarrow>sort (remdups (map snd ?ps)).
               count_list ?ps (r, g))"
    by (simp add: crosstab_def Let_def comp_def)
  also have "\<dots> = length ?ps"
    by (rule suma_conteos) auto
  finally show ?thesis using len by simp
qed

section \<open>A missing column\<close>

lemma columna_faltante_Some:
  "\<not> set req \<subseteq> set cols \<Longrightarrow>
   \<exists>c. columna_faltante req cols = Some c \<and> c \<in> set req \<and> c \<notin> set cols"
  by (induction req) auto

text \<open>
  C6. When a required column is missing, each of the three analyses names the first
  missing column and the columns of the sheet, and ends there: the output file is never
  opened and nothing is returned.
\<close>

theorem columna_faltante_aborta:
  "(\<not> set [tx ''REGION'', tx ''GENRE''] \<subseteq> set (map fst df) \<longrightarrow>
      (\<exists>c. c \<in> set [tx ''REGION'', tx ''GENRE''] \<and> c \<notin> set (map fst df)
          \<and> analizar_relacion_region_genero df
              = \<lparr>consola = [Columna_no_encontrada c, Columnas_disponibles (map fst df)],
                 archivo = Sin_abrir, retorno = None\<rparr>))
   \<and> (\<not> set [tx ''CUSTOMER_ID'', tx ''DEVICE''] \<subseteq> set (map fst df) \<longrightarrow>
      (\<exists>c. c \<in> set [tx ''CUSTOMER_ID'', tx ''DEVICE''] \<and> c \<notin> set (map fst df)
          \<and> analizar_dispositivos_por_cliente df
              = \<lparr>consola = [Columna_no_encontrada c, Columnas_disponibles (map fst df)],
                 archivo = Sin_abrir, retorno = None\<rparr>))
   \<and> (tx ''CUSTOMER_ID'' \<notin> set (map fst df) \<longrightarrow>
        analizar_customer_ids df
          = \<lparr>consola = [Columna_no_encontrada (tx ''CUSTOMER_ID''),
                         Columnas_disponibles (map fst df)],
             archivo = Sin_abrir, retorno = None\<rparr>)"
proof (intro conjI impI)
  assume "\<not> set [tx ''REGION'', tx ''GENRE''] \<subseteq> set (map fst df)"
  then obtain c where "columna_faltante [tx ''REGION'', tx ''GENRE''] (map fst df) = Some c"
    "c \<in> set [tx ''REGION'', tx ''GENRE'']" "c \<notin> set (map fst df)"
    using columna_faltante_Some by blast
  then show "\<exists>c. c \<in> set [tx ''REGION'', tx ''GENRE''] \<and> c \<notin> set (map fst df)
          \<and> analizar_relacion_region_genero df
              = \<lparr>consola = [Columna_no_encontrada c, Columnas_disponibles (map fst df)],
                 archivo = Sin_abrir, retorno = None\<rparr>"
    unfolding analizar_relacion_region_genero_def by (intro exI [of _ c]) simp
next
  assume "\<not> set [tx ''CUSTOMER_ID'', tx ''DEVICE''] \<subseteq> set (map fst df)"
  then obtain c where "columna_faltante [tx ''CUSTOMER_ID'', tx ''DEVICE''] (map fst df) = Some c"
    "c \<in> set [tx ''CUSTOMER_ID'', tx ''DEVICE'']" "c \<notin> set (map fst df)"
    using columna_faltante_Some by blast
  then show "\<exists>c. c \<in> set [tx ''CUSTOMER_ID'', tx ''DEVICE''] \<and> c \<notin> set (map fst df)
          \<and> analizar_dispositivos_por_cliente df
              = \<lparr>consola = [Columna_no_encontrada c, Columnas_disponibles (map fst df)],
                 archivo = Sin_abrir, retorno = None\<rparr>"
    unfolding analizar_dispositivos_por_cliente_def by (intro exI [of _ c]) simp
next
  assume "tx ''CUSTOMER_ID'' \<notin> set (map fst df)"
  then show "analizar_customer_ids df
          = \<lparr>consola = [Columna_no_encontrada (tx ''CUSTOMER_ID''),
                         Columnas_disponibles (map fst df)],
             archivo = Sin_abrir, retorno = None\<rparr>"
    unfolding analizar_customer_ids_def by simp
qed

lemma nombres_distintos:
  "tx ''REGION'' \<noteq> tx ''GENRE''" "tx ''CUSTOMER_ID'' \<noteq> tx ''DEVICE''"
  by (simp_all add: tx_simps)

theorem columna_faltante_aborta_witness:
  "\<not> set [tx ''REGION'', tx ''GENRE''] \<subseteq> set (map fst [(tx ''REGION'', [Str (tx ''Norte'')])])
   \<and> analizar_relacion_region_genero [(tx ''REGION'', [Str (tx ''Norte'')])]
       = \<lparr>consola = [Columna_no_encontrada (tx ''GENRE''), Columnas_disponibles [tx ''REGION'']],
          archivo = Sin_abrir, retorno = None\<rparr>
   \<and> \<not> set [tx ''CUSTOMER_ID'', tx ''DEVICE''] \<subseteq> set (map fst [(tx ''DEVICE'', [Str (tx ''tv'')])])
   \<and> analizar_dispositivos_por_cliente [(tx ''DEVICE'', [Str (tx ''tv'')])]
       = \<lparr>consola = [Columna_no_encontrada (tx ''CUSTOMER_ID''),
                      Columnas_disponibles [tx ''DEVICE'']],
          archivo = Sin_abrir, retorno = None\<rparr>
   \<and> tx ''CUSTOMER_ID'' \<notin> set (map fst [(tx ''DEVICE'', [Str (tx ''tv'')])])
   \<and> analizar_customer_ids [(tx ''DEVICE'', [Str (tx ''tv'')])]
       = \<lparr>consola = [Columna_no_encontrada (tx ''CUSTOMER_ID''),
                      Columnas_disponibles [tx ''DEVICE'']],
          archivo = Sin_abrir, retorno = None\<rparr>"
proof -
  have a: "\<not> set [tx ''REGION'', tx ''GENRE''] \<subseteq> set (map fst [(tx ''REGION'', [Str (tx ''Norte'')])])"
    using nombres_distintos by auto
  have b: "\<not> set [tx ''CUSTOMER_ID'', tx ''DEVICE''] \<subseteq> set (map fst [(tx ''DEVICE'', [Str (tx ''tv'')])])"
    using nombres_distintos by auto
  have b': "tx ''CUSTOMER_ID'' \<notin> set (map fst [(tx ''DEVICE'', [Str (tx ''tv'')])])"
    using nombres_distintos by auto
  from columna_faltante_aborta [of "[(tx ''REGION'', [Str (tx ''Norte'')])]"] a
  have c: "analizar_relacion_region_genero [(tx ''REGION'', [Str (tx ''Norte'')])]
       = \<lparr>consola = [Columna_no_encontrada (tx ''GENRE''), Columnas_disponibles [tx ''REGION'']],
          archivo = Sin_abrir, retorno = None\<rparr>"
    using nombres_distintos by auto
  from columna_faltante_aborta [of "[(tx ''DEVICE'', [Str (tx ''tv'')])]"] b
  have d: "analizar_dispositivos_por_cliente [(tx ''DEVICE'', [Str (tx ''tv'')])]
       = \<lparr>consola = [Columna_no_encontrada (tx ''CUSTOMER_ID''),
                      Columnas_disponibles [tx ''DEVICE'']],
          archivo = Sin_abrir, retorno = None\<rparr>"
    using nombres_distintos by auto
  from columna_faltante_aborta [of "[(tx ''DEVICE'', [Str (tx ''tv'')])]"] b'
  have e: "analizar_customer_ids [(tx ''DEVICE'', [Str (tx ''tv'')])]
       = \<lparr>consola = [Columna_no_encontrada (tx ''CUSTOMER_ID''),
                      Columnas_disponibles [tx ''DEVICE'']],
          archivo = Sin_abrir, retorno = None\<rparr>"
    by simp
  from a b b' c d e show ?thesis by (intro conjI)
qed

section \<open>No cleaned record\<close>

text \<open>
  C7. With a column \<^verbatim>\<open>CUSTOMER_ID\<close> of blank cells only, no identifier is left after
  cleaning, and the run of \<^verbatim>\<open>analizar_customer_ids\<close> ends in the division by zero of line
  85, reported by the handler for unexpected errors: the empty data set is not detected.
\<close>

theorem customer_ids_vacio:
  "analizar_customer_ids [(tx ''CUSTOMER_ID'', [NaN, NaN])]
     = \<lparr>consola = [Informe, Error_inesperado ZeroDivisionError], archivo = Sin_abrir,
        retorno = None\<rparr>"
  by (simp add: analizar_customer_ids_def columna_def Counter_def py_div_def)

text \<open>
  The region/genre analysis behaves alike when no record is left after cleaning: an
  error of pandas reaches the same handler.
\<close>

lemma region_genero_vacio:
  "analizar_relacion_region_genero
      [(tx ''REGION'', [NaN, Str (tx '' '')]),
       (tx ''GENRE'', [Str (tx ''Drama''), Str (tx ''Drama'')])]
     = \<lparr>consola = [Informe, Error_inesperado Error_pandas], archivo = Sin_abrir,
        retorno = None\<rparr>"
  by (simp add: analizar_relacion_region_genero_def columna_def calcular_region_def
        limpiar_region_genero_def dropna_def strip_def es_espacio_def crosstab_def
        top_generos_por_region_def Let_def tx_simps)

section \<open>The cleaning step of the device analysis\<close>

text \<open>
  C8. The cleaning step of the device analysis keeps a record whose DEVICE is made of
  spaces, with the empty text as its device, and a record whose CUSTOMER_ID is blank,
  with the text \<^verbatim>\<open>nan\<close> as its identifier.
\<close>

theorem limpiar_dispositivos_vacio:
  "limpiar_dispositivos [(Str (tx ''c1''), Str (tx ''  '')), (NaN, Str (tx ''tv''))]
     = [(Str (tx ''c1''), Str []), (Str (tx ''nan''), Str (tx ''tv''))]"
  by (simp add: limpiar_dispositivos_def dropna_def strip_def es_espacio_def tx_simps)

text \<open>
  The region/genre analysis removes such records (lines 51 and 52): what it keeps is
  text that is neither empty nor \<^verbatim>\<open>nan\<close>.
\<close>

lemma limpiar_region_genero_no_vacio:
  "(a, b) \<in> set (limpiar_region_genero df) \<Longrightarrow>
     (\<exists>r g. a = Str r \<and> b = Str g \<and> r \<noteq> [] \<and> g \<noteq> [] \<and> r \<noteq> tx ''nan'' \<and> g \<noteq> tx ''nan'')"
  by (cases a; cases b) (auto simp: limpiar_region_genero_def dropna_def Let_def)

section \<open>Devices per customer\<close>


lemma buscar_Nil: "buscar [] k = []"
  by (simp add: buscar_def)

lemma buscar_actualizar:
  "buscar (actualizar f [] k m) k' = (if k' = k then f (buscar m k) else buscar m k')"
  by (induction m) (auto simp: buscar_def)

lemma claves_actualizar:
  "fst ` set (actualizar f d k m) = insert k (fst ` set m)"
proof (induction m)
  case Nil
  show ?case by simp
next
  case (Cons p m)
  obtain k' v where p: "p = (k', v)" by (cases p)
  show ?case
  proof (cases "k' = k")
    case True
    then show ?thesis by (simp add: p)
  next
    case False
    then show ?thesis using Cons.IH by (simp add: p insert_commute)
  qed
qed

lemma distinct_actualizar:
  "distinct (map fst m) \<Longrightarrow> distinct (map fst (actualizar f d k m))"
proof (induction m)
  case Nil
  then show ?case by simp
next
  case (Cons p m)
  obtain k' v where p: "p = (k', v)" by (cases p)
  from Cons show ?case
    by (auto simp: p claves_actualizar)
qed

lemma procesar_claves:
  "distinct (map fst cd) \<Longrightarrow>
     distinct (map fst (fst (procesar filas (cd, cr))))
     \<and> set (map fst (fst (procesar filas (cd, cr)))) = set (map fst cd) \<union> fst ` set filas"
proof (induction filas arbitrary: cd cr)
  case Nil
  then show ?case by simp
next
  case (Cons p filas)
  obtain k d where p: "p = (k, d)" by (cases p)
  let ?cd = "actualizar (List.insert d) [] k cd"
  have d: "distinct (map fst ?cd)" using Cons.prems by (rule distinct_actualizar)
  have s: "set (map fst ?cd) = insert k (set (map fst cd))"
    by (simp add: claves_actualizar)
  from Cons.IH [OF d] s show ?case by (simp add: p)
qed

lemma procesar_dispositivos:
  "distinct (buscar cd k) \<Longrightarrow>
     distinct (buscar (fst (procesar filas (cd, cr))) k)
     \<and> set (buscar (fst (procesar filas (cd, cr))) k)
         = set (buscar cd k) \<union> {d. (k, d) \<in> set filas}"
proof (induction filas arbitrary: cd cr)
  case Nil
  then show ?case by simp
next
  case (Cons p filas)
  obtain k' d where p: "p = (k', d)" by (cases p)
  let ?cd = "actualizar (List.insert d) [] k' cd"
  have d: "distinct (buscar ?cd k)" using Cons.prems by (auto simp: buscar_actualizar)
  have s: "set (buscar ?cd k) = set (buscar cd k) \<union> (if k = k' then {d} else {})"
    by (simp add: buscar_actualizar)
  from Cons.IH [OF d] s show ?case by (auto simp: p)
qed

lemma procesar_registros:
  "buscar (snd (procesar filas (cd, cr))) k
     = buscar cr k @ map snd (filter (\<lambda>p. fst p = k) filas)"
proof (induction filas arbitrary: cd cr)
  case Nil
  then show ?case by simp
next
  case (Cons p filas)
  obtain k' d where p: "p = (k', d)" by (cases p)
  show ?case by (simp add: p Cons.IH buscar_actualizar)
qed

lemma buscar_par:
  "distinct (map fst m) \<Longrightarrow> (k, v) \<in> set m \<Longrightarrow> buscar m k = v"
  by (simp add: buscar_def)

lemma Si_No: "Si \<noteq> No"
  by (simp add: Si_def No_def tx_simps)

lemma analisis_data_claves: "map CUSTOMER_ID (analisis_data st) = map fst (fst st)"
  by (simp add: analisis_data_def Let_def comp_def case_prod_beta)

lemma analisis_data_fila:
  assumes "f \<in> set (analisis_data (procesar filas ([], [])))"
  shows "CANTIDAD_DISPOSITIVOS f = card {d. (CUSTOMER_ID f, d) \<in> set filas}
         \<and> TOTAL_VISUALIZACIONES f = length (filter (\<lambda>p. fst p = CUSTOMER_ID f) filas)
         \<and> 1 \<le> CANTIDAD_DISPOSITIVOS f
         \<and> CANTIDAD_DISPOSITIVOS f \<le> TOTAL_VISUALIZACIONES f
         \<and> (USA_MULTIPLES_DISPOSITIVOS f = Si \<longleftrightarrow> 1 < CANTIDAD_DISPOSITIVOS f)"
proof -
  let ?st = "procesar filas ([], [])"
  from assms obtain k ds where kd: "(k, ds) \<in> set (fst ?st)"
    and f: "f = \<lparr>CUSTOMER_ID = k, CANTIDAD_DISPOSITIVOS = length ds,
                 DISPOSITIVOS_UTILIZADOS = unir (sort ds),
                 USA_MULTIPLES_DISPOSITIVOS = (if 1 < length ds then Si else No),
                 TOTAL_VISUALIZACIONES = length (buscar (snd ?st) k),
                 DISP_UNICOS_TOTAL = (length ds, length (buscar (snd ?st) k))\<rparr>"
    unfolding analisis_data_def Let_def by auto
  have claves: "distinct (map fst (fst ?st))" "set (map fst (fst ?st)) = fst ` set filas"
    using procesar_claves [of "[]" filas "[]"] by simp_all
  have ds: "buscar (fst ?st) k = ds" using claves(1) kd by (rule buscar_par)
  have dd: "distinct ds" "set ds = {d. (k, d) \<in> set filas}"
    using procesar_dispositivos [of "[]" k filas "[]"] ds by (simp_all add: buscar_Nil)
  have rs: "buscar (snd ?st) k = map snd (filter (\<lambda>p. fst p = k) filas)"
    using procesar_registros [of filas "[]" "[]" k] by (simp add: buscar_Nil)
  have cant: "length ds = card {d. (k, d) \<in> set filas}"
    using dd by (metis distinct_card)
  have "k \<in> fst ` set filas" using kd claves(2) by force
  then obtain d where "(k, d) \<in> set filas" by auto
  then have "ds \<noteq> []" using dd(2) by auto
  then have uno: "1 \<le> length ds" by (cases ds) simp_all
  have "set ds = set (map snd (filter (\<lambda>p. fst p = k) filas))"
    unfolding dd(2) by force
  then have "card (set ds) \<le> length (map snd (filter (\<lambda>p. fst p = k) filas))"
    by (simp only: card_length)
  then have le: "length ds \<le> length (filter (\<lambda>p. fst p = k) filas)"
    using dd(1) by (simp add: distinct_card)
  from cant uno le rs show ?thesis using Si_No by (auto simp: f)
qed

text \<open>
  C10. When the device analysis returns its rows, there is exactly one row for each
  customer of the cleaned records; its number of devices is the number of distinct
  devices in the customer's records, its total is the number of these records, the
  number of devices is at least 1 and at most the total, and the flag is \<open>Si\<close> exactly when
  the number of devices is greater than 1.
\<close>

theorem dispositivos_por_cliente:
  assumes "retorno (analizar_dispositivos_por_cliente df) = Some filas"
  shows "distinct (map CUSTOMER_ID filas)
         \<and> set (map CUSTOMER_ID filas) = fst ` set (registros_dispositivos df)
         \<and> (\<forall>f \<in> set filas.
               CANTIDAD_DISPOSITIVOS f
                 = card {d. (CUSTOMER_ID f, d) \<in> set (registros_dispositivos df)}
             \<and> TOTAL_VISUALIZACIONES f
                 = length (filter (\<lambda>p. fst p = CUSTOMER_ID f) (registros_dispositivos df))
             \<and> 1 \<le> CANTIDAD_DISPOSITIVOS f
             \<and> CANTIDAD_DISPOSITIVOS f \<le> TOTAL_VISUALIZACIONES f
             \<and> (USA_MULTIPLES_DISPOSITIVOS f = Si \<longleftrightarrow> 1 < CANTIDAD_DISPOSITIVOS f))"
proof -
  let ?ps = "registros_dispositivos df"
  let ?an = "analisis_data (procesar ?ps ([], []))"
  from assms have filas: "filas = sort_key (\<lambda>f. - int (CANTIDAD_DISPOSITIVOS f)) ?an"
    unfolding analizar_dispositivos_por_cliente_def Let_def
    by (auto split: option.splits if_splits)
  have claves: "distinct (map fst (fst (procesar ?ps ([], []))))"
    "set (map fst (fst (procesar ?ps ([], [])))) = fst ` set ?ps"
    using procesar_claves [of "[]" ?ps "[]"] by simp_all
  have 1: "distinct (map CUSTOMER_ID filas)"
    using claves(1) unfolding filas analisis_data_claves [symmetric]
    by (simp add: distinct_map)
  have 2: "set (map CUSTOMER_ID filas) = fst ` set ?ps"
    using claves(2) unfolding filas analisis_data_claves [symmetric] by simp
  have 3: "\<forall>f \<in> set filas.
               CANTIDAD_DISPOSITIVOS f = card {d. (CUSTOMER_ID f, d) \<in> set ?ps}
             \<and> TOTAL_VISUALIZACIONES f = length (filter (\<lambda>p. fst p = CUSTOMER_ID f) ?ps)
             \<and> 1 \<le> CANTIDAD_DISPOSITIVOS f
             \<and> CANTIDAD_DISPOSITIVOS f \<le> TOTAL_VISUALIZACIONES f
             \<and> (USA_MULTIPLES_DISPOSITIVOS f = Si \<longleftrightarrow> 1 < CANTIDAD_DISPOSITIVOS f)"
  proof
    fix f assume "f \<in> set filas"
    then have "f \<in> set ?an" by (simp add: filas)
    then show "CANTIDAD_DISPOSITIVOS f = card {d. (CUSTOMER_ID f, d) \<in> set ?ps}
             \<and> TOTAL_VISUALIZACIONES f = length (filter (\<lambda>p. fst p = CUSTOMER_ID f) ?ps)
             \<and> 1 \<le> CANTIDAD_DISPOSITIVOS f
             \<and> CANTIDAD_DISPOSITIVOS f \<le> TOTAL_VISUALIZACIONES f
             \<and> (USA_MULTIPLES_DISPOSITIVOS f = Si \<longleftrightarrow> 1 < CANTIDAD_DISPOSITIVOS f)"
      by (rule analisis_data_fila)
  qed
  from 1 2 3 show ?thesis by (intro conjI)
qed

lemma dispositivos_ejemplo:
  "retorno (analizar_dispositivos_por_cliente
      [(tx ''CUSTOMER_ID'', [Str (tx ''c1''), Str (tx ''c2''), Str (tx ''c1 ''), Str (tx ''c1'')]),
       (tx ''DEVICE'', [Str (tx ''tv''), Str (tx ''tv''), Str (tx ''movil''), Str (tx ''tv'')])])
   = Some [\<lparr>CUSTOMER_ID = tx ''c1'', CANTIDAD_DISPOSITIVOS = 2,
            DISPOSITIVOS_UTILIZADOS = tx ''movil, tv'', USA_MULTIPLES_DISPOSITIVOS = Si,
            TOTAL_VISUALIZACIONES = 3, DISP_UNICOS_TOTAL = (2, 3)\<rparr>,
           \<lparr>CUSTOMER_ID = tx ''c2'', CANTIDAD_DISPOSITIVOS = 1,
            DISPOSITIVOS_UTILIZADOS = tx ''tv'', USA_MULTIPLES_DISPOSITIVOS = No,
            TOTAL_VISUALIZACIONES = 1, DISP_UNICOS_TOTAL = (1, 1)\<rparr>]"
  by (simp add: analizar_dispositivos_por_cliente_def registros_dispositivos_def columna_def
        limpiar_dispositivos_def dropna_def strip_def es_espacio_def analisis_data_def
        buscar_def hoja_cabe_def Let_def tx_simps)

theorem dispositivos_por_cliente_witness:
  "retorno (analizar_dispositivos_por_cliente
      [(tx ''CUSTOMER_ID'', [Str (tx ''c1''), Str (tx ''c2''), Str (tx ''c1 ''), Str (tx ''c1'')]),
       (tx ''DEVICE'', [Str (tx ''tv''), Str (tx ''tv''), Str (tx ''movil''), Str (tx ''tv'')])])
   = Some [\<lparr>CUSTOMER_ID = tx ''c1'', CANTIDAD_DISPOSITIVOS = 2,
            DISPOSITIVOS_UTILIZADOS = tx ''movil, tv'', USA_MULTIPLES_DISPOSITIVOS = Si,
            TOTAL_VISUALIZACIONES = 3, DISP_UNICOS_TOTAL = (2, 3)\<rparr>,
           \<lparr>CUSTOMER_ID = tx ''c2'', CANTIDAD_DISPOSITIVOS = 1,
            DISPOSITIVOS_UTILIZADOS = tx ''tv'', USA_MULTIPLES_DISPOSITIVOS = No,
            TOTAL_VISUALIZACIONES = 1, DISP_UNICOS_TOTAL = (1, 1)\<rparr>]
   \<and> distinct [tx ''c1'', tx ''c2'']
   \<and> {tx ''c1'', tx ''c2''} = fst ` set (registros_dispositivos
      [(tx ''CUSTOMER_ID'', [Str (tx ''c1''), Str (tx ''c2''), Str (tx ''c1 ''), Str (tx ''c1'')]),
       (tx ''DEVICE'', [Str (tx ''tv''), Str (tx ''tv''), Str (tx ''movil''), Str (tx ''tv'')])])
   \<and> card {d. (tx ''c1'', d) \<in> set (registros_dispositivos
      [(tx ''CUSTOMER_ID'', [Str (tx ''c1''), Str (tx ''c2''), Str (tx ''c1 ''), Str (tx ''c1'')]),
       (tx ''DEVICE'', [Str (tx ''tv''), Str (tx ''tv''), Str (tx ''movil''), Str (tx ''tv'')])])} = 2
   \<and> length (filter (\<lambda>p. fst p = tx ''c1'') (registros_dispositivos
      [(tx ''CUSTOMER_ID'', [Str (tx ''c1''), Str (tx ''c2''), Str (tx ''c1 ''), Str (tx ''c1'')]),
       (tx ''DEVICE'', [Str (tx ''tv''), Str (tx ''tv''), Str (tx ''movil''), Str (tx ''tv'')])])) = 3"
  using dispositivos_por_cliente [OF dispositivos_ejemplo] dispositivos_ejemplo
  by simp

section \<open>The ranking of genres\<close>

lemma insort_orden:
  fixes k :: "'a \<Rightarrow> 'k::linorder" and pos :: "'a \<Rightarrow> 'p::order"
  assumes "sorted_wrt (\<lambda>a b. k a < k b \<or> (k a = k b \<and> pos a < pos b)) L"
    and "\<forall>y\<in>set L. pos x < pos y"
  shows "sorted_wrt (\<lambda>a b. k a < k b \<or> (k a = k b \<and> pos a < pos b)) (insort_key k x L)"
  using assms
proof (induction L)
  case Nil
  then show ?case by simp
next
  case (Cons y ys)
  show ?case
  proof (cases "k x \<le> k y")
    case True
    have "k x < k z \<or> (k x = k z \<and> pos x < pos z)" if "z \<in> set (y # ys)" for z
    proof -
      have "k y \<le> k z" using that Cons.prems(1) by auto
      with True have "k x \<le> k z" by simp
      moreover have "pos x < pos z" using that Cons.prems(2) by auto
      ultimately show ?thesis by auto
    qed
    with True Cons.prems(1) show ?thesis by simp
  next
    case False
    then have "k y < k x" by simp
    moreover have "sorted_wrt (\<lambda>a b. k a < k b \<or> (k a = k b \<and> pos a < pos b)) (insort_key k x ys)"
      using Cons by simp
    ultimately show ?thesis using False Cons.prems(1) by (auto simp: set_insort_key)
  qed
qed

lemma sort_key_orden:
  fixes k :: "'a \<Rightarrow> 'k::linorder" and pos :: "'a \<Rightarrow> 'p::order"
  assumes "sorted_wrt (\<lambda>a b. pos a < pos b) xs"
  shows "sorted_wrt (\<lambda>a b. k a < k b \<or> (k a = k b \<and> pos a < pos b)) (sort_key k xs)"
  using assms
proof (induction xs)
  case Nil
  then show ?case by simp
next
  case (Cons x xs)
  have "sorted_wrt (\<lambda>a b. k a < k b \<or> (k a = k b \<and> pos a < pos b))
          (insort_key k x (sort_key k xs))"
    by (rule insort_orden) (use Cons in auto)
  then show ?case by simp
qed

lemma zip_orden:
  "sorted_wrt (<) xs \<Longrightarrow> sorted_wrt (\<lambda>a b. fst a < fst b) (zip xs ys)"
proof (induction xs arbitrary: ys)
  case Nil
  then show ?case by simp
next
  case (Cons x xs)
  then show ?case by (cases ys) (auto dest: set_zip_leftD)
qed

lemma columnas_orden: "sorted_wrt (<) (columnas (crosstab df))"
  by (simp add: crosstab_def Let_def strict_sorted_iff)

lemma indice_distinct: "distinct (indice (crosstab df))"
  by (simp add: crosstab_def Let_def)

lemma zip_map_mismo: "zip xs (map f xs) = map (\<lambda>x. (x, f x)) xs"
  by (induction xs) simp_all

lemma crosstab_filas:
  "zip (indice (crosstab df)) (valores (crosstab df))
     = map (\<lambda>r. (r, map (\<lambda>g. count_list (pares df) (r, g)) (columnas (crosstab df))))
         (indice (crosstab df))"
  by (simp add: crosstab_def Let_def zip_map_mismo)

lemma ordenada_orden:
  fixes cols :: "texto list"
  assumes "sorted_wrt (<) cols"
  shows "sorted_wrt (\<lambda>a b. snd b < snd a \<or> (snd a = snd b \<and> fst a < fst b))
           (sort_key (\<lambda>(g, c). - int c) (zip cols fila))"
proof -
  let ?k = "\<lambda>(g :: texto, c :: nat). - int c"
  have "sorted_wrt (\<lambda>a b. ?k a < ?k b \<or> (?k a = ?k b \<and> fst a < fst b))
          (sort_key ?k (zip cols fila))"
    by (rule sort_key_orden) (rule zip_orden [OF assms])
  then show ?thesis
    by (rule sorted_wrt_mono_rel [rotated]) (auto simp: case_prod_beta)
qed

lemma top_region_REGION: "e \<in> set (top_region cols rf) \<Longrightarrow> REGION e = fst rf"
  unfolding top_region_def Let_def by auto

lemma filtrar_otra_region:
  "r \<notin> fst ` set rfs \<Longrightarrow>
     filter (\<lambda>e. REGION e = r) (concat (map (top_region cols) rfs)) = []"
  by (induction rfs) (auto simp: filter_empty_conv dest: top_region_REGION)

lemma filtrar_region:
  assumes "distinct (map fst rfs)" "(r, fila) \<in> set rfs"
  shows "filter (\<lambda>e. REGION e = r) (concat (map (top_region cols) rfs))
           = top_region cols (r, fila)"
  using assms
proof (induction rfs)
  case Nil
  then show ?case by simp
next
  case (Cons p rfs)
  show ?case
  proof (cases "fst p = r")
    case True
    with Cons.prems have r: "r \<notin> fst ` set rfs" by auto
    with Cons.prems(2) have p: "p = (r, fila)" by force
    have "filter (\<lambda>e. REGION e = r) (top_region cols p) = top_region cols p"
      by (rule filter_True) (simp add: top_region_REGION p)
    with filtrar_otra_region [OF r] show ?thesis by (simp add: p)
  next
    case False
    then have "filter (\<lambda>e. REGION e = r) (top_region cols p) = []"
      by (auto simp: filter_empty_conv dest: top_region_REGION)
    moreover from False Cons.prems(2) have "(r, fila) \<in> set rfs" by auto
    ultimately show ?thesis using Cons by simp
  qed
qed

lemma top_region_proy:
  "map (\<lambda>e. (GENERO e, VISUALIZACIONES e)) (top_region cols (r, fila))
     = nlargest 3 (zip cols fila)"
proof -
  let ?top = "nlargest 3 (zip cols fila)"
  have "map (\<lambda>e. (GENERO e, VISUALIZACIONES e)) (top_region cols (r, fila))
          = map snd (zip [1..<Suc (length ?top)] ?top)"
    unfolding top_region_def Let_def by (simp add: case_prod_beta comp_def del: upt_Suc)
  also have "\<dots> = ?top" by (rule map_snd_zip) (simp only: length_upt diff_Suc_1)
  finally show ?thesis .
qed

lemma top_region_ranking:
  "map RANKING (top_region cols (r, fila)) = [1..<Suc (min 3 (length (zip cols fila)))]"
proof -
  let ?top = "nlargest 3 (zip cols fila)"
  have "map RANKING (top_region cols (r, fila)) = map fst (zip [1..<Suc (length ?top)] ?top)"
    unfolding top_region_def Let_def by (simp add: case_prod_beta comp_def del: upt_Suc)
  also have "\<dots> = [1..<Suc (length ?top)]"
    by (rule map_fst_zip) (simp only: length_upt diff_Suc_1)
  also have "length ?top = min 3 (length (zip cols fila))"
    by (simp add: nlargest_def min.commute)
  finally show ?thesis .
qed

lemma top_generos_region:
  assumes "r \<in> set (indice (crosstab c))"
  shows "filter (\<lambda>e. REGION e = r) (top_generos_por_region (crosstab c))
           = top_region (columnas (crosstab c))
               (r, map (\<lambda>g. count_list (pares c) (r, g)) (columnas (crosstab c)))"
  unfolding top_generos_por_region_def crosstab_filas
  by (rule filtrar_region) (use assms indice_distinct [of c] in \<open>auto simp: comp_def\<close>)

text \<open>
  C9. For every region of the contingency table, the rows of the ranking that belong to
  the region carry the ranks 1, 2, ... up to 3 (or the number of genres of the table, if
  smaller); each names a genre of the table with the count of the region's cleaned
  records of that genre; in the order of the ranks the counts never increase, and of two
  rows with the same count the one whose genre comes first in the columns of the table
  (the smaller label) has the lower rank; and every genre left out has a count that is
  smaller than the count of each listed row, or the same count and a larger label.
\<close>

theorem top_generos_orden:
  assumes "r \<in> set (indice (tabla_contingencia (calcular_region df)))"
  shows "let F = filter (\<lambda>e. REGION e = r) (top_generos (calcular_region df));
             cols = columnas (tabla_contingencia (calcular_region df));
             ps = pares (limpiar_region_genero df)
         in map RANKING F = [1..<Suc (min 3 (length cols))]
            \<and> (\<forall>e \<in> set F. GENERO e \<in> set cols
                  \<and> VISUALIZACIONES e = count_list ps (r, GENERO e))
            \<and> sorted_wrt (\<lambda>a b. VISUALIZACIONES b < VISUALIZACIONES a
                  \<or> (VISUALIZACIONES a = VISUALIZACIONES b \<and> GENERO a < GENERO b)) F
            \<and> (\<forall>e \<in> set F. \<forall>g \<in> set cols. g \<notin> GENERO ` set F \<longrightarrow>
                  count_list ps (r, g) < VISUALIZACIONES e
                  \<or> (count_list ps (r, g) = VISUALIZACIONES e \<and> GENERO e < g))"
proof -
  let ?c = "limpiar_region_genero df"
  let ?t = "crosstab ?c"
  let ?cols = "columnas ?t"
  let ?ps = "pares ?c"
  let ?fila = "map (\<lambda>g. count_list ?ps (r, g)) ?cols"
  let ?F = "top_region ?cols (r, ?fila)"
  let ?L = "sort_key (\<lambda>(g, c). - int c) (zip ?cols ?fila)"
  let ?R = "\<lambda>a b :: texto \<times> nat. snd b < snd a \<or> (snd a = snd b \<and> fst a < fst b)"
  let ?proy = "\<lambda>e. (GENERO e, VISUALIZACIONES e)"
  have r: "r \<in> set (indice ?t)" using assms by (simp add: calcular_region_def Let_def)
  have F: "filter (\<lambda>e. REGION e = r) (top_generos (calcular_region df)) = ?F"
    using top_generos_region [OF r] by (simp add: calcular_region_def Let_def)
  have proy: "map ?proy ?F = take 3 ?L" by (simp add: top_region_proy nlargest_def)
  have setL: "set ?L = (\<lambda>g. (g, count_list ?ps (r, g))) ` set ?cols"
    by (simp add: zip_map_mismo)
  have ord: "sorted_wrt ?R ?L" by (rule ordenada_orden) (rule columnas_orden)
  have 1: "map RANKING ?F = [1..<Suc (min 3 (length ?cols))]"
    by (simp add: top_region_ranking del: upt_Suc)
  have en: "?proy e \<in> set (take 3 ?L)" if "e \<in> set ?F" for e
  proof -
    from that have "?proy e \<in> ?proy ` set ?F" by (rule imageI)
    then have "?proy e \<in> set (map ?proy ?F)" by (simp only: set_map)
    then show ?thesis by (simp only: proy)
  qed
  have 2: "\<forall>e \<in> set ?F. GENERO e \<in> set ?cols
              \<and> VISUALIZACIONES e = count_list ?ps (r, GENERO e)"
  proof
    fix e assume "e \<in> set ?F"
    then have "?proy e \<in> set ?L" using en set_take_subset by fastforce
    then show "GENERO e \<in> set ?cols \<and> VISUALIZACIONES e = count_list ?ps (r, GENERO e)"
      unfolding setL by auto
  qed
  have "sorted_wrt ?R (map ?proy ?F)" unfolding proy using ord by (rule sorted_wrt_take)
  then have 3: "sorted_wrt (\<lambda>a b. VISUALIZACIONES b < VISUALIZACIONES a
                  \<or> (VISUALIZACIONES a = VISUALIZACIONES b \<and> GENERO a < GENERO b)) ?F"
    by (simp add: sorted_wrt_map)
  have 4: "\<forall>e \<in> set ?F. \<forall>g \<in> set ?cols. g \<notin> GENERO ` set ?F \<longrightarrow>
                  count_list ?ps (r, g) < VISUALIZACIONES e
                  \<or> (count_list ?ps (r, g) = VISUALIZACIONES e \<and> GENERO e < g)"
  proof (intro ballI impI)
    fix e g assume e: "e \<in> set ?F" and g: "g \<in> set ?cols" and fuera: "g \<notin> GENERO ` set ?F"
    let ?x = "(g, count_list ?ps (r, g))"
    have xL: "?x \<in> set ?L" unfolding setL using g by simp
    have partes: "set ?L = set (take 3 ?L) \<union> set (drop 3 ?L)"
      by (simp only: set_append [symmetric] append_take_drop_id)
    have "?x \<notin> set (take 3 ?L)"
    proof
      assume "?x \<in> set (take 3 ?L)"
      then have "?x \<in> set (map ?proy ?F)" by (simp only: proy)
      then have "g \<in> GENERO ` set ?F" by force
      with fuera show False by simp
    qed
    with xL partes have x: "?x \<in> set (drop 3 ?L)" by blast
    have "sorted_wrt ?R (take 3 ?L @ drop 3 ?L)" using ord by simp
    then have "\<forall>a \<in> set (take 3 ?L). \<forall>b \<in> set (drop 3 ?L). ?R a b"
      by (simp only: sorted_wrt_append) simp
    with en [OF e] x have "?R (?proy e) ?x" by blast
    then show "count_list ?ps (r, g) < VISUALIZACIONES e
                  \<or> (count_list ?ps (r, g) = VISUALIZACIONES e \<and> GENERO e < g)"
      by auto
  qed
  have cols: "columnas (tabla_contingencia (calcular_region df)) = ?cols"
    by (simp add: calcular_region_def Let_def)
  from 1 2 3 4 show ?thesis unfolding Let_def F cols by (intro conjI)
qed

lemma top_ejemplo:
  "map (\<lambda>e. (RANKING e, GENERO e, VISUALIZACIONES e))
     (top_generos (calcular_region
        [(Str (tx ''Norte''), Str (tx ''Terror'')), (Str (tx ''Norte''), Str (tx ''Drama''))]))
     = [(1, tx ''Drama'', 1), (2, tx ''Terror'', 1)]
   \<and> indice (tabla_contingencia (calcular_region
        [(Str (tx ''Norte''), Str (tx ''Terror'')), (Str (tx ''Norte''), Str (tx ''Drama''))]))
     = [tx ''Norte'']
   \<and> columnas (tabla_contingencia (calcular_region
        [(Str (tx ''Norte''), Str (tx ''Terror'')), (Str (tx ''Norte''), Str (tx ''Drama''))]))
     = [tx ''Drama'', tx ''Terror'']"
  by (simp add: calcular_region_def limpiar_region_genero_def dropna_def strip_def
        es_espacio_def crosstab_def top_generos_por_region_def top_region_def nlargest_def
        Let_def tx_simps)

theorem top_generos_orden_witness:
  "tx ''Norte'' \<in> set (indice (tabla_contingencia (calcular_region
        [(Str (tx ''Norte''), Str (tx ''Terror'')), (Str (tx ''Norte''), Str (tx ''Drama''))])))
   \<and> map RANKING (filter (\<lambda>e. REGION e = tx ''Norte'') (top_generos (calcular_region
        [(Str (tx ''Norte''), Str (tx ''Terror'')), (Str (tx ''Norte''), Str (tx ''Drama''))])))
       = [1, 2]
   \<and> sorted_wrt (\<lambda>a b. VISUALIZACIONES b < VISUALIZACIONES a
                  \<or> (VISUALIZACIONES a = VISUALIZACIONES b \<and> GENERO a < GENERO b))
        (filter (\<lambda>e. REGION e = tx ''Norte'') (top_generos (calcular_region
        [(Str (tx ''Norte''), Str (tx ''Terror'')), (Str (tx ''Norte''), Str (tx ''Drama''))])))"
proof -
  let ?df = "[(Str (tx ''Norte''), Str (tx ''Terror'')), (Str (tx ''Norte''), Str (tx ''Drama''))]"
  have r: "tx ''Norte'' \<in> set (indice (tabla_contingencia (calcular_region ?df)))"
    using top_ejemplo by simp
  have cols: "length (columnas (tabla_contingencia (calcular_region ?df))) = 2"
    using top_ejemplo by simp
  note t = top_generos_orden [OF r, unfolded Let_def]
  have "[1..<Suc (min 3 2)] = [1, 2 :: nat]" by (simp add: upt_rec)
  with conjunct1 [OF t] cols
  have a: "map RANKING (filter (\<lambda>e. REGION e = tx ''Norte'') (top_generos (calcular_region ?df)))
             = [1, 2]"
    by simp
  from r a conjunct1 [OF conjunct2 [OF conjunct2 [OF t]]] show ?thesis by (intro conjI)
qed

text \<open>
  Two records of one region, the genre Terror met before the genre Drama, each once: the
  ranking puts Drama first. The tie is not settled by the order in which the records
  are met.
\<close>

theorem top_generos_empate_counterexample:
  "map (\<lambda>e. (RANKING e, GENERO e, VISUALIZACIONES e))
     (top_generos (calcular_region
        [(Str (tx ''Norte''), Str (tx ''Terror'')), (Str (tx ''Norte''), Str (tx ''Drama''))]))
     = [(1, tx ''Drama'', 1), (2, tx ''Terror'', 1)]
   \<and> pares (limpiar_region_genero
        [(Str (tx ''Norte''), Str (tx ''Terror'')), (Str (tx ''Norte''), Str (tx ''Drama''))])
     = [(tx ''Norte'', tx ''Terror''), (tx ''Norte'', tx ''Drama'')]"
  by (simp add: calcular_region_def limpiar_region_genero_def dropna_def strip_def
        es_espacio_def crosstab_def top_generos_por_region_def top_region_def nlargest_def
        Let_def tx_simps)

end
